theory Spec2Isabelle
  imports Main "HOL-Library.Sublist"
begin

section \<open>The declarations of MainPage.h\<close>

text \<open>
  The header \<^verbatim>\<open>windows/xenolexia/MainPage.h\<close> consists of declarations only:
  \<^verbatim>\<open>
  namespace winrt::xenolexia::implementation
  {
      struct MainPage : MainPageT<MainPage>
      {
          MainPage();
      };
  }

  namespace winrt::xenolexia::factory_implementation
  {
      struct MainPage : MainPageT<MainPage, implementation::MainPage>
      {
      };
  }
  \<close>
  A declaration is embedded as the data the compiler keeps of it: the enclosing
  namespace, the name, the base class with its template arguments as written, and the
  members of the body. A name is the list of its components, one per \<^verbatim>\<open>::\<close>.
\<close>

type_synonym qname = "string list"

datatype member =
    Constructor "qname list"
  | DataMember qname string
  | MemberFunction string "qname list"

record struct_decl =
  d_namespace :: qname
  d_name :: string
  d_base :: qname
  d_base_args :: "qname list"
  d_members :: "member list"

text \<open>
  A header may also define objects at namespace scope, which are constructed when the
  module is loaded. MainPage.h defines none; the constructor \<open>ObjectDecl\<close> (namespace,
  type as written, name) is what such a definition would be.
\<close>

datatype decl =
    StructDecl struct_decl
  | ObjectDecl qname qname string

definition implementation_MainPage :: struct_decl where
  "implementation_MainPage =
     \<lparr> d_namespace = [''winrt'', ''xenolexia'', ''implementation''],
       d_name = ''MainPage'',
       d_base = [''MainPageT''],
       d_base_args = [[''MainPage'']],
       d_members = [Constructor []] \<rparr>"

definition factory_implementation_MainPage :: struct_decl where
  "factory_implementation_MainPage =
     \<lparr> d_namespace = [''winrt'', ''xenolexia'', ''factory_implementation''],
       d_name = ''MainPage'',
       d_base = [''MainPageT''],
       d_base_args = [[''MainPage''], [''implementation'', ''MainPage'']],
       d_members = [] \<rparr>"

definition MainPage_h :: "decl list" where
  "MainPage_h =
     [StructDecl implementation_MainPage, StructDecl factory_implementation_MainPage]"

text \<open>
  Modelled from the spec: the generated header \<^verbatim>\<open>MainPage.g.h\<close>, which MainPage.h
  includes and which is not among the sources. It declares the two base templates named
  \<^verbatim>\<open>MainPageT\<close>: the one of the implementation namespace carries the host's base-page
  contract ("it is-a host Page"), the one of the factory namespace carries the host's
  "make a Page Type" capability.
\<close>

datatype base_template = PageBase | FactoryBase

definition MainPage_g_h :: "(qname \<times> base_template) list" where
  "MainPage_g_h =
     [([''winrt'', ''xenolexia'', ''implementation'', ''MainPageT''], PageBase),
      ([''winrt'', ''xenolexia'', ''factory_implementation'', ''MainPageT''], FactoryBase)]"

subsection \<open>Name lookup\<close>

text \<open>
  A name written inside a namespace is looked up in that namespace first, then in each
  enclosing one, outwards to the global namespace. The first scope that declares the
  first component of the name decides; the remaining components are looked up there.
\<close>

definition scopes :: "qname \<Rightarrow> qname list" where
  "scopes ns = rev (prefixes ns)"

definition full_name :: "struct_decl \<Rightarrow> qname" where
  "full_name d = d_namespace d @ [d_name d]"

definition structs :: "decl list \<Rightarrow> struct_decl list" where
  "structs hdr =
     List.map_filter (\<lambda>d. case d of StructDecl s \<Rightarrow> Some s | ObjectDecl _ _ _ \<Rightarrow> None) hdr"

definition namespaces :: "decl list \<Rightarrow> qname list" where
  "namespaces hdr =
     concat (map (\<lambda>d. case d of StructDecl s \<Rightarrow> prefixes (d_namespace s)
                               | ObjectDecl ns _ _ \<Rightarrow> prefixes ns) hdr)"

definition find_struct :: "decl list \<Rightarrow> qname \<Rightarrow> struct_decl option" where
  "find_struct hdr q = find (\<lambda>d. full_name d = q) (structs hdr)"

definition resolve :: "decl list \<Rightarrow> qname \<Rightarrow> qname \<Rightarrow> struct_decl option" where
  "resolve hdr ns w =
     (case w of
        [] \<Rightarrow> None
      | x # _ \<Rightarrow>
          (case find (\<lambda>p. p @ [x] \<in> set (map full_name (structs hdr) @ namespaces hdr))
                     (scopes ns) of
             None \<Rightarrow> None
           | Some p \<Rightarrow> find_struct hdr (p @ w)))"

definition base_of :: "struct_decl \<Rightarrow> base_template option" where
  "base_of d =
     (case find (\<lambda>p. p @ d_base d \<in> set (map fst MainPage_g_h)) (scopes (d_namespace d)) of
        None \<Rightarrow> None
      | Some p \<Rightarrow> map_of MainPage_g_h (p @ d_base d))"

text \<open>
  The Page Type of a header is a struct that derives from the page base, its Activation
  Factory one that derives from the factory base. The second template argument of the
  factory base names the type the factory makes.
\<close>

definition page_types :: "decl list \<Rightarrow> struct_decl list" where
  "page_types hdr = filter (\<lambda>d. base_of d = Some PageBase) (structs hdr)"

definition factories :: "decl list \<Rightarrow> struct_decl list" where
  "factories hdr = filter (\<lambda>d. base_of d = Some FactoryBase) (structs hdr)"

definition instance_type :: "decl list \<Rightarrow> struct_decl \<Rightarrow> struct_decl option" where
  "instance_type hdr f =
     (case d_base_args f of
        [_, t] \<Rightarrow> resolve hdr (d_namespace f) t
      | _ \<Rightarrow> None)"

section \<open>The host and its objects\<close>

text \<open>
  Modelled from the spec: the host runtime, which is outside the repository. It keeps
  the objects it was handed, each under a handle; the null handle names no object. An object records its most derived type, the capabilities its base
  classes give it, and one slot per data member its struct declares. The activation
  factory of a loaded module is kept apart from the page objects: the host registers it
  when the module is loaded.
\<close>

type_synonym handle = nat

definition null_handle :: handle where
  "null_handle = 0"

datatype capability = BasePage | ActivationFactory

record object =
  obj_type :: qname
  obj_caps :: "capability list"
  obj_state :: "(qname \<times> string) list"

record host =
  framework_initialized :: bool
  factory :: "object option"
  heap :: "(handle \<times> object) list"

text \<open>
  The first two errors are the host's own; the others are what a mismatch between the
  declarations turns into when the module is built.
\<close>

datatype error =
    ModuleNotLoaded
  | HostNotInitialized
  | NoSuchType qname
  | NotDefaultConstructible qname
  | NotAFactory qname
  | NoDefinition qname

definition host_error :: "error \<Rightarrow> bool" where
  "host_error e = (e = ModuleNotLoaded \<or> e = HostNotInitialized)"

subsection \<open>Constructing an object of a declared struct\<close>

definition data_members :: "struct_decl \<Rightarrow> (qname \<times> string) list" where
  "data_members d =
     List.map_filter (\<lambda>m. case m of DataMember t n \<Rightarrow> Some (t, n) | _ \<Rightarrow> None) (d_members d)"

definition constructors :: "struct_decl \<Rightarrow> qname list list" where
  "constructors d =
     List.map_filter (\<lambda>m. case m of Constructor ps \<Rightarrow> Some ps | _ \<Rightarrow> None) (d_members d)"

text \<open>
  A struct that declares no constructor gets an implicit default constructor; one that
  declares constructors is default-constructible when one of them takes no argument.
\<close>

definition default_constructible :: "struct_decl \<Rightarrow> bool" where
  "default_constructible d = (constructors d = [] \<or> [] \<in> set (constructors d))"

definition declares :: "struct_decl \<Rightarrow> string \<Rightarrow> bool" where
  "declares d m =
     list_ex (\<lambda>x. case x of MemberFunction n _ \<Rightarrow> n = m | _ \<Rightarrow> False) (d_members d)"

text \<open>
  Modelled from the spec: what the base templates of the generated MainPage.g.h give an
  object that derives from them, and what their constructors need of the host. The page
  base registers the object with the host's base-page machinery, which takes an
  initialized framework; the host reports the failure itself otherwise.
\<close>

fun base_capabilities :: "base_template \<Rightarrow> capability list" where
  "base_capabilities PageBase = [BasePage]"
| "base_capabilities FactoryBase = [ActivationFactory]"

fun base_constructor :: "base_template \<Rightarrow> host \<Rightarrow> error + unit" where
  "base_constructor PageBase s =
     (if framework_initialized s then Inr () else Inl HostNotInitialized)"
| "base_constructor FactoryBase s = Inr ()"

text \<open>
  Modelled from the spec: the body of the constructor \<^verbatim>\<open>MainPage::MainPage()\<close>, which
  MainPage.h declares and MainPage.cpp (not among the sources) defines. It has the host
  load the page's UI description and does nothing of its own; a failure of the host's
  loader passes through unchanged.
\<close>

definition host_load_ui_description :: "host \<Rightarrow> error + host" where
  "host_load_ui_description s =
     (if framework_initialized s then Inr s else Inl HostNotInitialized)"

definition constructor_body :: "struct_decl \<Rightarrow> host \<Rightarrow> error + host" where
  "constructor_body d s =
     (if [] \<in> set (constructors d) then host_load_ui_description s else Inr s)"

definition instantiate :: "struct_decl \<Rightarrow> base_template \<Rightarrow> object" where
  "instantiate d k =
     \<lparr> obj_type = full_name d, obj_caps = base_capabilities k, obj_state = data_members d \<rparr>"

definition fresh_handle :: "(handle \<times> object) list \<Rightarrow> handle" where
  "fresh_handle hp = Suc (fold max (map fst hp) 0)"

definition construct :: "struct_decl \<Rightarrow> host \<Rightarrow> error + handle \<times> host" where
  "construct d s =
     (if \<not> default_constructible d then Inl (NotDefaultConstructible (full_name d))
      else case base_of d of
        None \<Rightarrow> Inl (NoSuchType (d_base d))
      | Some k \<Rightarrow>
          (case base_constructor k s of
             Inl e \<Rightarrow> Inl e
           | Inr _ \<Rightarrow>
               (case constructor_body d s of
                  Inl e \<Rightarrow> Inl e
                | Inr s1 \<Rightarrow>
                    let h = fresh_handle (heap s1)
                    in Inr (h, s1\<lparr>heap := (h, instantiate d k) # heap s1\<rparr>))))"

definition make :: "decl list \<Rightarrow> qname \<Rightarrow> qname \<Rightarrow> host \<Rightarrow> error + handle \<times> host" where
  "make hdr ns t s =
     (case resolve hdr ns t of
        None \<Rightarrow> Inl (NoSuchType t)
      | Some d \<Rightarrow> construct d s)"

subsection \<open>The factory's creation operation\<close>

text \<open>
  Modelled from the spec: the member \<^verbatim>\<open>ActivateInstance\<close> of the factory base template
  of MainPage.g.h, "the factory constructs the Page Type": it makes an object of the
  base's second template argument. A factory struct inherits it unless its body declares
  a member function of that name; such a declaration has no definition in the sources.
\<close>

definition ActivateInstance :: "decl list \<Rightarrow> struct_decl \<Rightarrow> host \<Rightarrow> error + handle \<times> host" where
  "ActivateInstance hdr f s =
     (if declares f ''ActivateInstance''
      then Inl (NoDefinition (full_name f @ [''ActivateInstance'']))
      else case base_of f of
        Some FactoryBase \<Rightarrow>
          (case d_base_args f of
             [_, t] \<Rightarrow> make hdr (d_namespace f) t s
           | _ \<Rightarrow> Inl (NotAFactory (full_name f)))
      | _ \<Rightarrow> Inl (NotAFactory (full_name f)))"

subsection \<open>What the host does\<close>

text \<open>
  Modelled from the spec: the host's operations. Loading the module registers the
  activation factory of the header ("registered once per module load") and constructs
  the objects the header defines at namespace scope. Creation is the host's activation call:
  it asks for the registered factory and invokes \<^verbatim>\<open>ActivateInstance\<close> on it. Disposal
  removes an object from the host's heap. A new object gets a handle above every live
  one; handles are unbounded, so the host never runs out of them.
\<close>

definition register_factory :: "decl list \<Rightarrow> host \<Rightarrow> host" where
  "register_factory hdr s =
     (case factories hdr of
        [f] \<Rightarrow> s\<lparr>factory := Some (instantiate f FactoryBase)\<rparr>
      | _ \<Rightarrow> s)"

definition static_init :: "decl list \<Rightarrow> host \<Rightarrow> host" where
  "static_init hdr s =
     fold (\<lambda>d s. case d of
                    ObjectDecl ns t _ \<Rightarrow>
                      (case make hdr ns t s of Inl _ \<Rightarrow> s | Inr (_, s') \<Rightarrow> s')
                  | StructDecl _ \<Rightarrow> s) hdr s"

definition load_module :: "decl list \<Rightarrow> host \<Rightarrow> host" where
  "load_module hdr s = static_init hdr (register_factory hdr s)"

definition create :: "host \<Rightarrow> error + handle \<times> host" where
  "create s =
     (case factory s of
        None \<Rightarrow> Inl ModuleNotLoaded
      | Some fo \<Rightarrow>
          (case find_struct MainPage_h (obj_type fo) of
             None \<Rightarrow> Inl (NoSuchType (obj_type fo))
           | Some f \<Rightarrow> ActivateInstance MainPage_h f s))"

definition dispose :: "handle \<Rightarrow> host \<Rightarrow> host" where
  "dispose h s = s\<lparr>heap := filter (\<lambda>(k, _). k \<noteq> h) (heap s)\<rparr>"

definition module_loaded :: "host \<Rightarrow> bool" where
  "module_loaded s =
     (factory s = Some (instantiate factory_implementation_MainPage FactoryBase))"

definition is_a :: "host \<Rightarrow> handle \<Rightarrow> capability \<Rightarrow> bool" where
  "is_a s h c =
     (case map_of (heap s) h of
        None \<Rightarrow> False
      | Some ob \<Rightarrow> c \<in> set (obj_caps ob))"

definition page_instances :: "host \<Rightarrow> (handle \<times> object) list" where
  "page_instances s =
     filter (\<lambda>(_, ob). obj_type ob = full_name implementation_MainPage) (heap s)"

datatype event = LoadModule | InitializeFramework | Create | Dispose handle

fun step :: "event \<Rightarrow> host \<Rightarrow> host" where
  "step LoadModule s = load_module MainPage_h s"
| "step InitializeFramework s = s\<lparr>framework_initialized := True\<rparr>"
| "step Create s = (case create s of Inl _ \<Rightarrow> s | Inr (_, s') \<Rightarrow> s')"
| "step (Dispose h) s = dispose h s"

definition run :: "event list \<Rightarrow> host \<Rightarrow> host" where
  "run evs s = fold step evs s"

definition initial_host :: host where
  "initial_host = \<lparr> framework_initialized = False, factory = None, heap = [] \<rparr>"

definition page_object :: object where
  "page_object = instantiate implementation_MainPage PageBase"

text \<open>
  The host on the documented happy path: the module loaded, the framework initialized,
  nothing created yet.
\<close>

definition ready_host :: host where
  "ready_host = run [LoadModule, InitializeFramework] initial_host"

text \<open>
  A Windows Runtime namespace \<open>app\<close> is projected into C++ as \<^verbatim>\<open>winrt::app\<close>; the
  application's identity is \<^verbatim>\<open>xenolexia\<close>.
\<close>

definition application_namespace :: qname where
  "application_namespace = [''winrt'', ''xenolexia'']"


section \<open>Facts about the declarations\<close>

lemma structs_MainPage_h:
  "structs MainPage_h = [implementation_MainPage, factory_implementation_MainPage]"
  by (simp add: structs_def MainPage_h_def)

lemma base_of_implementation: "base_of implementation_MainPage = Some PageBase"
  by (simp add: base_of_def implementation_MainPage_def MainPage_g_h_def scopes_def)

lemma base_of_factory: "base_of factory_implementation_MainPage = Some FactoryBase"
  by (simp add: base_of_def factory_implementation_MainPage_def MainPage_g_h_def scopes_def)

lemma full_name_implementation:
  "full_name implementation_MainPage = [''winrt'', ''xenolexia'', ''implementation'', ''MainPage'']"
  by (simp add: full_name_def implementation_MainPage_def)

lemma full_name_factory:
  "full_name factory_implementation_MainPage =
     [''winrt'', ''xenolexia'', ''factory_implementation'', ''MainPage'']"
  by (simp add: full_name_def factory_implementation_MainPage_def)

lemma find_struct_MainPage_h:
  "find_struct MainPage_h q =
     (if q = full_name implementation_MainPage then Some implementation_MainPage
      else if q = full_name factory_implementation_MainPage
        then Some factory_implementation_MainPage
      else None)"
  by (auto simp: find_struct_def structs_MainPage_h)

lemma namespaces_MainPage_h:
  "set (namespaces MainPage_h) =
     {[], [''winrt''], [''winrt'', ''xenolexia''],
      [''winrt'', ''xenolexia'', ''implementation''],
      [''winrt'', ''xenolexia'', ''factory_implementation'']}"
  by (auto simp: namespaces_def MainPage_h_def implementation_MainPage_def
      factory_implementation_MainPage_def)

lemma resolve_implementation_MainPage:
  "resolve MainPage_h [''winrt'', ''xenolexia'', ''factory_implementation'']
     [''implementation'', ''MainPage''] = Some implementation_MainPage"
  by (simp add: resolve_def scopes_def structs_MainPage_h namespaces_MainPage_h
      find_struct_MainPage_h full_name_implementation full_name_factory)

lemma instance_type_factory:
  "instance_type MainPage_h factory_implementation_MainPage = Some implementation_MainPage"
proof -
  have "d_base_args factory_implementation_MainPage =
          [[''MainPage''], [''implementation'', ''MainPage'']]"
    and "d_namespace factory_implementation_MainPage =
          [''winrt'', ''xenolexia'', ''factory_implementation'']"
    by (simp_all add: factory_implementation_MainPage_def)
  then show ?thesis
    by (simp add: instance_type_def resolve_implementation_MainPage)
qed

section \<open>Facts about construction and creation\<close>

lemma fold_max_lower: "(a::nat) \<le> fold max xs a"
  by (induction xs arbitrary: a) (auto intro: order_trans [OF max.cobounded2])

lemma fold_max_upper: "x \<in> set xs \<Longrightarrow> (x::nat) \<le> fold max xs a"
proof (induction xs arbitrary: a)
  case Nil
  then show ?case by simp
next
  case (Cons y ys)
  show ?case
  proof (cases "x = y")
    case True
    have "y \<le> max y a" by simp
    also have "\<dots> \<le> fold max ys (max y a)" by (rule fold_max_lower)
    finally show ?thesis using True by simp
  next
    case False
    with Cons show ?thesis by simp
  qed
qed

lemma fresh_handle_not_null: "fresh_handle hp \<noteq> null_handle"
  by (simp add: fresh_handle_def null_handle_def)

lemma fresh_handle_above: "(k, ob) \<in> set hp \<Longrightarrow> k < fresh_handle hp"
proof -
  assume "(k, ob) \<in> set hp"
  then have "k \<in> set (map fst hp)" by force
  then have "k \<le> fold max (map fst hp) 0" by (rule fold_max_upper)
  then show ?thesis by (simp add: fresh_handle_def)
qed

lemma fresh_handle_unused: "map_of hp (fresh_handle hp) = None"
proof (cases "map_of hp (fresh_handle hp)")
  case None
  then show ?thesis .
next
  case (Some ob)
  then have "(fresh_handle hp, ob) \<in> set hp" by (rule map_of_SomeD)
  then have "fresh_handle hp < fresh_handle hp" by (rule fresh_handle_above)
  then show ?thesis by simp
qed

lemma default_constructible_implementation: "default_constructible implementation_MainPage"
  by (simp add: default_constructible_def constructors_def implementation_MainPage_def)

lemma constructors_implementation: "constructors implementation_MainPage = [[]]"
  by (simp add: constructors_def implementation_MainPage_def)

lemma construct_implementation:
  "construct implementation_MainPage s =
     (if framework_initialized s
      then Inr (fresh_handle (heap s), s\<lparr>heap := (fresh_handle (heap s), page_object) # heap s\<rparr>)
      else Inl HostNotInitialized)"
  by (simp add: construct_def default_constructible_implementation base_of_implementation
      constructor_body_def constructors_implementation host_load_ui_description_def
      page_object_def Let_def)

lemma declares_factory: "\<not> declares factory_implementation_MainPage m"
  by (simp add: declares_def factory_implementation_MainPage_def)

lemma ActivateInstance_factory:
  "ActivateInstance MainPage_h factory_implementation_MainPage s =
     construct implementation_MainPage s"
proof -
  have "d_base_args factory_implementation_MainPage =
          [[''MainPage''], [''implementation'', ''MainPage'']]"
    and "d_namespace factory_implementation_MainPage =
          [''winrt'', ''xenolexia'', ''factory_implementation'']"
    by (simp_all add: factory_implementation_MainPage_def)
  then show ?thesis
    by (simp add: ActivateInstance_def declares_factory base_of_factory make_def
        resolve_implementation_MainPage)
qed

lemma ActivateInstance_implementation:
  "ActivateInstance MainPage_h implementation_MainPage s =
     Inl (NotAFactory (full_name implementation_MainPage))"
  by (simp add: ActivateInstance_def declares_def base_of_implementation)
     (simp add: implementation_MainPage_def)

lemma create_loaded:
  "module_loaded s \<Longrightarrow> create s = construct implementation_MainPage s"
  by (simp add: module_loaded_def create_def instantiate_def find_struct_MainPage_h
      full_name_implementation full_name_factory ActivateInstance_factory)

lemma create_Inr:
  assumes "create s = Inr (h, s')"
  shows "framework_initialized s \<and> h = fresh_handle (heap s)
         \<and> s' = s\<lparr>heap := (h, page_object) # heap s\<rparr>"
proof -
  from assms obtain fo where fo: "factory s = Some fo"
    by (auto simp: create_def split: option.splits)
  from assms fo obtain f where f: "find_struct MainPage_h (obj_type fo) = Some f"
    by (auto simp: create_def split: option.splits)
  from assms fo f have act: "ActivateInstance MainPage_h f s = Inr (h, s')"
    by (simp add: create_def)
  from f have "f = implementation_MainPage \<or> f = factory_implementation_MainPage"
    by (auto simp: find_struct_MainPage_h split: if_splits)
  then have "f = factory_implementation_MainPage"
    using act by (auto simp: ActivateInstance_implementation)
  with act have "construct implementation_MainPage s = Inr (h, s')"
    by (simp add: ActivateInstance_factory)
  then show ?thesis
    by (auto simp: construct_implementation split: if_splits)
qed

lemma factories_MainPage_h: "factories MainPage_h = [factory_implementation_MainPage]"
  by (simp add: factories_def structs_MainPage_h base_of_implementation base_of_factory)

lemma page_types_MainPage_h: "page_types MainPage_h = [implementation_MainPage]"
  by (simp add: page_types_def structs_MainPage_h base_of_implementation base_of_factory)

lemma static_init_MainPage_h: "static_init MainPage_h s = s"
  by (simp add: static_init_def MainPage_h_def)

lemma load_module_MainPage_h:
  "load_module MainPage_h s =
     s\<lparr>factory := Some (instantiate factory_implementation_MainPage FactoryBase)\<rparr>"
  by (simp add: load_module_def static_init_MainPage_h register_factory_def
      factories_MainPage_h)

lemma step_heap_no_create:
  "ev \<noteq> Create \<Longrightarrow> heap s = [] \<Longrightarrow> heap (step ev s) = []"
  by (cases ev) (simp_all add: load_module_MainPage_h dispose_def)

lemma run_heap_no_create:
  "Create \<notin> set evs \<Longrightarrow> heap s = [] \<Longrightarrow> heap (run evs s) = []"
  unfolding run_def
proof (induction evs arbitrary: s)
  case Nil
  then show ?case by simp
next
  case (Cons ev evs)
  from Cons.prems have "heap (step ev s) = []"
    by (intro step_heap_no_create) auto
  with Cons show ?case by simp
qed

lemma ready_host_eq:
  "ready_host =
     \<lparr> framework_initialized = True,
       factory = Some (instantiate factory_implementation_MainPage FactoryBase),
       heap = [] \<rparr>"
  by (simp add: ready_host_def run_def initial_host_def load_module_MainPage_h)

lemma ready_host_loaded: "module_loaded ready_host"
  by (simp add: ready_host_eq module_loaded_def)

lemma ready_host_initialized: "framework_initialized ready_host"
  by (simp add: ready_host_eq)

lemma ready_host_heap: "heap ready_host = []"
  by (simp add: ready_host_eq)

lemma fresh_handle_empty: "fresh_handle [] = Suc 0"
  by (simp add: fresh_handle_def)

lemma map_of_dispose:
  "map_of (heap (dispose h s)) k = (if k = h then None else map_of (heap s) k)"
proof -
  have "map_of (filter (\<lambda>(k, _). k \<noteq> h) hp) k = (if k = h then None else map_of hp k)"
    for hp :: "(handle \<times> object) list"
    by (induction hp) auto
  then show ?thesis by (simp add: dispose_def)
qed

lemma module_loaded_heap_update: "module_loaded (s\<lparr>heap := hp\<rparr>) = module_loaded s"
  by (simp add: module_loaded_def)

section \<open>The claims\<close>

text \<open>
  Claim C1. With the module loaded and the host framework initialized, the factory's
  creation operation, which takes nothing but the host's state, succeeds and returns a
  handle that is not null and names a Page Type instance. When it fails at all, the
  error is one of the host's, never one of this component.
\<close>

theorem create_succeeds:
  assumes "module_loaded s"
  shows "(framework_initialized s \<longrightarrow>
            (\<exists>h s'. create s = Inr (h, s') \<and> h \<noteq> null_handle
                     \<and> map_of (heap s') h = Some page_object))
         \<and> (\<forall>e. create s = Inl e \<longrightarrow> host_error e)"
  using assms
  by (simp add: create_loaded construct_implementation fresh_handle_not_null host_error_def)

theorem create_succeeds_witness:
  "module_loaded ready_host \<and> framework_initialized ready_host
   \<and> (\<exists>h s'. create ready_host = Inr (h, s') \<and> h \<noteq> null_handle
               \<and> map_of (heap s') h = Some page_object)"
  using create_succeeds [of ready_host]
  by (simp add: ready_host_loaded ready_host_initialized)

text \<open>
  Claim C2. Two successive calls of the creation operation succeed and return distinct
  instances A and B, both valid; disposing either leaves the other as it was.
\<close>

theorem successive_creates_independent:
  assumes "module_loaded s" and "framework_initialized s"
  shows "\<exists>a s1 b s2. create s = Inr (a, s1) \<and> create s1 = Inr (b, s2) \<and> a \<noteq> b
           \<and> map_of (heap s2) a = Some page_object
           \<and> map_of (heap s2) b = Some page_object
           \<and> map_of (heap (dispose a s2)) b = map_of (heap s2) b
           \<and> map_of (heap (dispose b s2)) a = map_of (heap s2) a"
proof -
  define a where "a = fresh_handle (heap s)"
  define s1 where "s1 = s\<lparr>heap := (a, page_object) # heap s\<rparr>"
  define b where "b = fresh_handle (heap s1)"
  define s2 where "s2 = s1\<lparr>heap := (b, page_object) # heap s1\<rparr>"
  have c1: "create s = Inr (a, s1)"
    using assms by (simp add: create_loaded construct_implementation a_def s1_def)
  have "module_loaded s1" and "framework_initialized s1"
    using assms by (simp_all add: s1_def module_loaded_heap_update)
  then have c2: "create s1 = Inr (b, s2)"
    by (simp add: create_loaded construct_implementation b_def s2_def)
  have "(a, page_object) \<in> set (heap s1)"
    by (simp add: s1_def)
  then have "a < b"
    unfolding b_def by (rule fresh_handle_above)
  then have ne: "a \<noteq> b" by simp
  have va: "map_of (heap s2) a = Some page_object"
    using ne by (simp add: s2_def s1_def)
  have vb: "map_of (heap s2) b = Some page_object"
    by (simp add: s2_def)
  have "map_of (heap (dispose a s2)) b = map_of (heap s2) b"
    and "map_of (heap (dispose b s2)) a = map_of (heap s2) a"
    using ne by (simp_all add: map_of_dispose)
  with c1 c2 ne va vb show ?thesis by blast
qed

theorem successive_creates_independent_witness:
  "module_loaded ready_host \<and> framework_initialized ready_host
   \<and> (\<exists>a s1 b s2. create ready_host = Inr (a, s1) \<and> create s1 = Inr (b, s2) \<and> a \<noteq> b
           \<and> map_of (heap s2) a = Some page_object
           \<and> map_of (heap s2) b = Some page_object
           \<and> map_of (heap (dispose a s2)) b = map_of (heap s2) b
           \<and> map_of (heap (dispose b s2)) a = map_of (heap s2) a)"
  using successive_creates_independent [OF ready_host_loaded ready_host_initialized]
  by (simp add: ready_host_loaded ready_host_initialized)

text \<open>
  Claim C3. The Page Type declares a constructor without parameters, so it is
  default-constructible; it derives from the page base template, and constructing it
  enters an object into the host that carries exactly the capabilities of that base,
  the base-page capability among them.
\<close>

theorem page_type_default_constructible:
  "[] \<in> set (constructors implementation_MainPage)
   \<and> default_constructible implementation_MainPage
   \<and> base_of implementation_MainPage = Some PageBase
   \<and> (framework_initialized s \<longrightarrow>
        (\<exists>h s' ob. construct implementation_MainPage s = Inr (h, s')
           \<and> map_of (heap s') h = Some ob
           \<and> obj_type ob = full_name implementation_MainPage
           \<and> obj_caps ob = base_capabilities PageBase
           \<and> BasePage \<in> set (obj_caps ob)))"
  by (simp add: constructors_implementation default_constructible_implementation
      base_of_implementation construct_implementation page_object_def instantiate_def)

theorem page_type_default_constructible_witness:
  "framework_initialized ready_host
   \<and> (\<exists>h s' ob. construct implementation_MainPage ready_host = Inr (h, s')
           \<and> map_of (heap s') h = Some ob
           \<and> obj_type ob = full_name implementation_MainPage
           \<and> BasePage \<in> set (obj_caps ob))"
  using page_type_default_constructible [of ready_host]
  by (auto simp: ready_host_initialized)

text \<open>
  Claim C4. Every Page Type instance, whether constructed directly or through the
  factory, passes the host's check for the base-page capability.
\<close>

theorem page_instance_is_a_base_page:
  assumes "construct implementation_MainPage s = Inr (h, s') \<or> create s = Inr (h, s')"
  shows "is_a s' h BasePage"
proof -
  from assms have "s' = s\<lparr>heap := (h, page_object) # heap s\<rparr>"
    by (auto simp: construct_implementation split: if_splits dest: create_Inr)
  then show ?thesis
    by (simp add: is_a_def page_object_def instantiate_def)
qed

theorem page_instance_is_a_base_page_witness:
  "construct implementation_MainPage ready_host
     = Inr (Suc 0, ready_host\<lparr>heap := [(Suc 0, page_object)]\<rparr>)
   \<and> is_a (ready_host\<lparr>heap := [(Suc 0, page_object)]\<rparr>) (Suc 0) BasePage"
proof -
  have c: "construct implementation_MainPage ready_host
             = Inr (Suc 0, ready_host\<lparr>heap := [(Suc 0, page_object)]\<rparr>)"
    by (simp add: construct_implementation ready_host_initialized ready_host_heap
        fresh_handle_empty)
  then show ?thesis
    using page_instance_is_a_base_page
      [of ready_host "Suc 0" "ready_host\<lparr>heap := [(Suc 0, page_object)]\<rparr>"]
    by simp
qed

text \<open>
  Claim C5. With the host framework initialized, constructing the Page Type returns an
  instance. The only failure of construction is the host's own, and it occurs only when
  the framework is not initialized.
\<close>

theorem construction_never_throws:
  "(framework_initialized s \<longrightarrow> (\<exists>h s'. construct implementation_MainPage s = Inr (h, s')))
   \<and> (\<forall>e. construct implementation_MainPage s = Inl e
          \<longrightarrow> e = HostNotInitialized \<and> \<not> framework_initialized s)"
  by (simp add: construct_implementation)

theorem construction_never_throws_witness:
  "module_loaded ready_host \<and> framework_initialized ready_host
   \<and> (\<exists>h s'. construct implementation_MainPage ready_host = Inr (h, s'))"
  using construction_never_throws [of ready_host]
  by (simp add: ready_host_loaded ready_host_initialized)

text \<open>
  Claim C6. MainPage.h declares two things and no others: one Page Type and one
  Activation Factory, with distinct full names, both in namespaces under that of the
  application, \<^verbatim>\<open>winrt::xenolexia\<close>.
\<close>

theorem module_exposes_two_types:
  "length MainPage_h = 2
   \<and> map full_name (structs MainPage_h) =
       [[''winrt'', ''xenolexia'', ''implementation'', ''MainPage''],
        [''winrt'', ''xenolexia'', ''factory_implementation'', ''MainPage'']]
   \<and> structs MainPage_h = page_types MainPage_h @ factories MainPage_h
   \<and> length (page_types MainPage_h) = 1 \<and> length (factories MainPage_h) = 1
   \<and> list_all (\<lambda>d. prefix application_namespace (d_namespace d)) (structs MainPage_h)"
proof -
  have "length MainPage_h = 2"
    by (simp add: MainPage_h_def)
  moreover have "list_all (\<lambda>d. prefix application_namespace (d_namespace d))
                   (structs MainPage_h)"
    by (simp add: structs_MainPage_h application_namespace_def implementation_MainPage_def
        factory_implementation_MainPage_def)
  ultimately show ?thesis
    by (simp add: structs_MainPage_h page_types_MainPage_h factories_MainPage_h
        full_name_implementation full_name_factory)
qed

text \<open>
  Claim C7. Loading the module adds no object to the host's heap, and as long as the
  host never invokes the creation operation, whatever else it does, no Page Type
  instance exists.
\<close>

theorem no_eager_instantiation:
  "heap (load_module MainPage_h s) = heap s
   \<and> (Create \<notin> set evs \<longrightarrow> page_instances (run evs initial_host) = [])"
proof -
  have "heap (load_module MainPage_h s) = heap s"
    by (simp add: load_module_MainPage_h)
  moreover have "page_instances (run evs initial_host) = []" if "Create \<notin> set evs"
  proof -
    have "heap initial_host = []"
      by (simp add: initial_host_def)
    with that have "heap (run evs initial_host) = []"
      by (rule run_heap_no_create)
    then show ?thesis
      by (simp add: page_instances_def)
  qed
  ultimately show ?thesis by simp
qed

theorem no_eager_instantiation_witness:
  "Create \<notin> set [LoadModule, InitializeFramework, Dispose 1]
   \<and> page_instances (run [LoadModule, InitializeFramework, Dispose 1] initial_host) = []"
  using no_eager_instantiation [of initial_host "[LoadModule, InitializeFramework, Dispose 1]"]
  by simp

text \<open>
  Claim C8. The factory struct declares no data member, so the registered factory object
  has no state of its own; a successful creation leaves the factory and the framework as
  they were and changes the heap only by adding the new Page Type object.
\<close>

theorem factory_owns_no_state:
  "data_members factory_implementation_MainPage = []
   \<and> (module_loaded s \<longrightarrow> (\<exists>fo. factory s = Some fo \<and> obj_state fo = []))
   \<and> (\<forall>h s'. create s = Inr (h, s') \<longrightarrow>
         factory s' = factory s
         \<and> framework_initialized s' = framework_initialized s
         \<and> heap s' = (h, page_object) # heap s)"
proof -
  have dm: "data_members factory_implementation_MainPage = []"
    by (simp add: data_members_def factory_implementation_MainPage_def)
  then have "module_loaded s \<longrightarrow> (\<exists>fo. factory s = Some fo \<and> obj_state fo = [])"
    by (simp add: module_loaded_def instantiate_def)
  moreover have "\<forall>h s'. create s = Inr (h, s') \<longrightarrow>
         factory s' = factory s
         \<and> framework_initialized s' = framework_initialized s
         \<and> heap s' = (h, page_object) # heap s"
    by (auto dest: create_Inr)
  ultimately show ?thesis using dm by blast
qed

theorem factory_owns_no_state_witness:
  "module_loaded ready_host
   \<and> (\<exists>fo. factory ready_host = Some fo \<and> obj_state fo = [])
   \<and> create ready_host = Inr (Suc 0, ready_host\<lparr>heap := [(Suc 0, page_object)]\<rparr>)
   \<and> factory (ready_host\<lparr>heap := [(Suc 0, page_object)]\<rparr>) = factory ready_host"
proof -
  have "create ready_host = Inr (Suc 0, ready_host\<lparr>heap := [(Suc 0, page_object)]\<rparr>)"
    by (simp add: create_loaded ready_host_loaded construct_implementation
        ready_host_initialized ready_host_heap fresh_handle_empty)
  then show ?thesis
    using factory_owns_no_state [of ready_host]
    by (simp add: ready_host_loaded)
qed

text \<open>
  Claim C9. The header declares exactly one Page Type and exactly one Activation Factory,
  and the type the factory makes, the second argument of its base template as name lookup
  resolves it, is that Page Type.
\<close>

theorem one_page_type_one_factory_paired:
  "page_types MainPage_h = [implementation_MainPage]
   \<and> factories MainPage_h = [factory_implementation_MainPage]
   \<and> map (instance_type MainPage_h) (factories MainPage_h) = [Some implementation_MainPage]"
  by (simp add: page_types_MainPage_h factories_MainPage_h instance_type_factory)

text \<open>
  Claim C10. The body of the factory struct is empty: it declares no member, so it
  overrides nothing, and its creation operation is the inherited one, which returns
  exactly what default construction of \<^verbatim>\<open>implementation::MainPage\<close> returns.
\<close>

theorem create_is_default_construction:
  "d_members factory_implementation_MainPage = []
   \<and> (\<forall>m. \<not> declares factory_implementation_MainPage m)
   \<and> ActivateInstance MainPage_h factory_implementation_MainPage s
       = construct implementation_MainPage s
   \<and> (module_loaded s \<longrightarrow> create s = construct implementation_MainPage s)"
proof -
  have "d_members factory_implementation_MainPage = []"
    by (simp add: factory_implementation_MainPage_def)
  then show ?thesis
    by (simp add: declares_factory ActivateInstance_factory create_loaded)
qed

theorem create_is_default_construction_witness:
  "module_loaded ready_host
   \<and> create ready_host = construct implementation_MainPage ready_host
   \<and> create ready_host = Inr (Suc 0, ready_host\<lparr>heap := [(Suc 0, page_object)]\<rparr>)"
proof -
  have "construct implementation_MainPage ready_host
          = Inr (Suc 0, ready_host\<lparr>heap := [(Suc 0, page_object)]\<rparr>)"
    by (simp add: construct_implementation ready_host_initialized ready_host_heap
        fresh_handle_empty)
  then show ?thesis
    using create_is_default_construction [of ready_host]
    by (simp add: ready_host_loaded)
qed

end
